theory Spec2Isabelle
  imports Complex_Main
begin

section \<open>The mapbox base plot module: \<^verbatim>\<open>src/plots/mapbox/index.js\<close>\<close>

text \<open>
  The module is orchestration code around an external map engine (\<^verbatim>\<open>mapbox-gl\<close>) and
  the wrapper class \<^verbatim>\<open>Mapbox\<close> of \<^verbatim>\<open>./mapbox\<close>. The embedding keeps the shape of the
  JavaScript: the graph div \<^verbatim>\<open>gd\<close> and its full layout are records, the wrapper objects
  live in a store indexed by address (the layout slots \<^verbatim>\<open>_subplot\<close> hold addresses, so
  two slots may alias one object), every \<^verbatim>\<open>throw\<close> is a value of a sum type that also
  carries the state reached at the throw, and every call that leaves the module (the
  console functions of \<^verbatim>\<open>Lib\<close>, the constructor and the methods of the wrapper) is
  recorded, in order, in an event list.

  JavaScript numbers are kept abstract: the records are polymorphic in the number type
  \<open>'n\<close>, and the only function that computes with numbers (\<^verbatim>\<open>toSVG\<close>) asks for
  \<open>1\<close>, \<open>+\<close>, \<open>-\<close> and \<open>*\<close> on it.
\<close>

subsection \<open>Data model\<close>

type_synonym subplot_id = string
type_synonym addr = nat

text \<open>
  \<^verbatim>\<open>opts.style\<close> is either a string (a style name or URL) or something else (a style
  object, \<^verbatim>\<open>undefined\<close>); the code only asks \<^verbatim>\<open>typeof style === 'string'\<close>.
\<close>

datatype style_value = StyleString string | StyleOther

text \<open>The four camera parameters; \<^verbatim>\<open>center\<close> is the object \<^verbatim>\<open>{lon, lat}\<close>.\<close>

record 'n view =
  center :: "'n \<times> 'n"
  zoom :: 'n
  bearing :: 'n
  pitch :: 'n

text \<open>
  A subplot container \<^verbatim>\<open>fullLayout[id]\<close>. It extends the view record, so that
  \<^verbatim>\<open>opts.center\<close>, \<^verbatim>\<open>opts.zoom\<close>, ... are the same selectors. \<^verbatim>\<open>accesstoken\<close> is a
  string or \<^verbatim>\<open>undefined\<close>; \<^verbatim>\<open>domain.x\<close> and \<^verbatim>\<open>domain.y\<close> are two-element arrays;
  \<open>subplot\<close> is the slot \<^verbatim>\<open>_subplot\<close>: the address of the wrapper, or \<^verbatim>\<open>undefined\<close>.
\<close>

record 'n opts = "'n view" +
  style :: style_value
  accesstoken :: "string option"
  domain_x :: "'n \<times> 'n"
  domain_y :: "'n \<times> 'n"
  subplot :: "addr option"

text \<open>\<^verbatim>\<open>fullLayout._size\<close>: the margins \<^verbatim>\<open>l\<close>, \<^verbatim>\<open>t\<close> and the plot area \<^verbatim>\<open>w\<close>, \<^verbatim>\<open>h\<close>.\<close>

record 'n gsize =
  size_l :: 'n
  size_t :: 'n
  size_w :: 'n
  size_h :: 'n

text \<open>
  An \<^verbatim>\<open>svg:image\<close> element appended to \<^verbatim>\<open>fullLayout._glimages\<close>, with the attributes
  \<^verbatim>\<open>toSVG\<close> sets. The data URI returned by \<^verbatim>\<open>mapbox.toImage('png')\<close> is represented by
  the address of the wrapper that produced it.
\<close>

record 'n image =
  img_xmlns :: string
  img_href :: addr
  img_x :: 'n
  img_y :: 'n
  img_width :: 'n
  img_height :: 'n
  img_preserveAspectRatio :: string

text \<open>
  The full layout: \<^verbatim>\<open>_subplots[MAPBOX]\<close> (an array of ids, or \<^verbatim>\<open>undefined\<close>), the
  containers by id, \<^verbatim>\<open>_size\<close> and the images appended to \<^verbatim>\<open>_glimages\<close>.
\<close>

record 'n layout =
  subplots_mapbox :: "subplot_id list option"
  entries :: "subplot_id \<rightharpoonup> 'n opts"
  gl_size :: "'n gsize"
  glimages :: "'n image list"

text \<open>A calculated trace, as far as this module looks at it: the subplot it belongs to.\<close>

record calcTrace =
  trace_subplot :: subplot_id
  trace_uid :: string

text \<open>
  The graph div: \<^verbatim>\<open>gd._fullLayout\<close>, \<^verbatim>\<open>gd.calcdata\<close> and
  \<^verbatim>\<open>gd._context.mapboxAccessToken\<close> (a string, or \<^verbatim>\<open>null\<close>/\<^verbatim>\<open>undefined\<close>).
\<close>

record 'n gd =
  fullLayout :: "'n layout"
  calcdata :: "calcTrace list"
  context_mapboxAccessToken :: "string option"

text \<open>
  The constants of \<^verbatim>\<open>./constants\<close> that the module reads. The file is missing from the
  sources, so the constants are a parameter of every function that uses them.
\<close>

record constants =
  requiredVersion :: string
  wrongVersionErrorMsg :: string
  noAccessTokenErrorMsg :: string
  multipleTokensErrorMsg :: string
  styleValuesMapbox :: "string list"

text \<open>
  Calls that leave the module, in the order they are made: the console functions
  \<^verbatim>\<open>Lib.error\<close>, \<^verbatim>\<open>Lib.warn\<close>, \<^verbatim>\<open>Lib.log\<close> with their message, the constructor
  \<^verbatim>\<open>new Mapbox(gd, id)\<close> with the address of the new object, and the wrapper methods
  \<^verbatim>\<open>plot\<close> (with the subplot's slice of the calculated data), \<^verbatim>\<open>toImage\<close>,
  \<^verbatim>\<open>destroy\<close> and \<^verbatim>\<open>updateFx\<close> with the address of the receiver.
\<close>

datatype event =
    Lib_error string
  | Lib_warn string
  | Lib_log string
  | Mapbox_new addr subplot_id
  | Mapbox_plot addr "calcTrace list"
  | Mapbox_toImage addr
  | Mapbox_destroy addr
  | Mapbox_updateFx addr

text \<open>
  Modelled from the spec: the class \<^verbatim>\<open>Mapbox\<close> of \<^verbatim>\<open>./mapbox\<close> is missing from the
  sources. A wrapper is "one per subplot id", bound at construction to the graph div and
  the id, and "owns ... an initial view state record (center, zoom, bearing, pitch)";
  its methods (plot, snapshot, destroy: "stop rendering, release the engine resource",
  refresh of the interaction bindings) work on the engine instance the wrapper owns.
  The record holds the two fields this module can observe; a method call is an
  \<^typ>\<open>event\<close> and changes neither these fields nor the layout.
\<close>

record 'n wrapper =
  wrapper_id :: subplot_id
  viewInitial :: "'n view option"

text \<open>
  Everything outside \<^verbatim>\<open>gd\<close> that the module reads or writes: the store of wrapper
  objects (address = index, \<^verbatim>\<open>new\<close> appends), the engine's globals
  \<^verbatim>\<open>mapboxgl.version\<close> and \<^verbatim>\<open>mapboxgl.accessToken\<close>, and the events so far.
\<close>

record 'n world =
  wrappers :: "'n wrapper list"
  mapboxgl_version :: string
  mapboxgl_accessToken :: "string option"
  events :: "event list"

text \<open>
  What a \<^verbatim>\<open>throw\<close> carries. \<^verbatim>\<open>Error msg\<close> is \<^verbatim>\<open>new Error(msg)\<close>; \<open>TypeError\<close> is what
  the engine raises on a property read or a method call on \<^verbatim>\<open>undefined\<close>.
  \<open>DanglingWrapper\<close> has no JavaScript counterpart: a slot always refers to a
  constructed object there; the model reports a slot that points outside the store
  instead of reading an unspecified value.
\<close>

datatype error = Error string | TypeError | DanglingWrapper

type_synonym 'n result = "(error \<times> 'n gd \<times> 'n world) + ('n gd \<times> 'n world)"

subsection \<open>Helpers of \<^verbatim>\<open>Lib\<close> and of JavaScript\<close>

text \<open>JavaScript truthiness of a value that is a string or \<^verbatim>\<open>undefined\<close>.\<close>

fun truthy :: "string option \<Rightarrow> bool" where
  "truthy None = False"
| "truthy (Some s) = (s \<noteq> [])"

text \<open>
  Modelled from the spec: \<^verbatim>\<open>Lib.pushUnique\<close> is missing from the sources; the token
  sets are "deduplicated, insertion-order".
\<close>

definition pushUnique :: "'a list \<Rightarrow> 'a \<Rightarrow> 'a list" where
  "pushUnique array item = (if item \<in> set array then array else array @ [item])"

text \<open>\<^verbatim>\<open>Array.prototype.join(sep)\<close> on an array of strings.\<close>

fun join :: "string \<Rightarrow> string list \<Rightarrow> string" where
  "join sep [] = []"
| "join sep [s] = s"
| "join sep (s # t # ts) = s @ sep @ join sep (t # ts)"

subsection \<open>\<^verbatim>\<open>findAccessToken\<close>\<close>

text \<open>The variables of the loop, and the console calls made so far.\<close>

record scan =
  tokensUseful :: "string list"
  tokensListed :: "string list"
  wontWork :: bool
  logged :: "event list"

text \<open>
  \<^verbatim>\<open>typeof style === 'string' && constants.styleValuesMapbox.indexOf(style) !== -1\<close>
\<close>

fun isMapboxStyle :: "constants \<Rightarrow> style_value \<Rightarrow> bool" where
  "isMapboxStyle c (StyleString s) = (s \<in> set (styleValuesMapbox c))"
| "isMapboxStyle c StyleOther = False"

text \<open>One pass through the body of the loop, for a container that exists.\<close>

definition scan_step :: "constants \<Rightarrow> ('n, 'z) opts_scheme \<Rightarrow> scan \<Rightarrow> scan" where
  "scan_step c opts s =
    (let token = accesstoken opts;
         s1 = (if isMapboxStyle c (style opts) then
                 (if truthy token
                  then s\<lparr>tokensUseful := pushUnique (tokensUseful s) (the token)\<rparr>
                  else s\<lparr>logged := logged s @
                         [Lib_error ''Uses Mapbox map style, but did not set an access token.''],
                         wontWork := True\<rparr>)
               else s)
     in if truthy token
        then s1\<lparr>tokensListed := pushUnique (tokensListed s1) (the token)\<rparr>
        else s1)"

text \<open>
  The loop over \<^verbatim>\<open>mapboxIds\<close>. \<^verbatim>\<open>fullLayout[mapboxIds[i]]\<close> is \<^verbatim>\<open>undefined\<close> for an id
  without a container, and \<^verbatim>\<open>opts.style\<close> then throws.
\<close>

fun scan_tokens ::
  "constants \<Rightarrow> 'n layout \<Rightarrow> subplot_id list \<Rightarrow> scan \<Rightarrow> (error \<times> event list) + scan" where
  "scan_tokens c fl [] s = Inr s"
| "scan_tokens c fl (k # ks) s =
    (case entries fl k of
       None \<Rightarrow> Inl (TypeError, logged s)
     | Some opts \<Rightarrow> scan_tokens c fl ks (scan_step c opts s))"

definition unusedTokensMsg :: "string list \<Rightarrow> string" where
  "unusedTokensMsg tokens =
     join '' '' [''Listed mapbox access token(s)'', join '','' tokens,
                 ''but did not use a Mapbox map style, ignoring token(s).'']"

text \<open>
  The result is the token, or the error thrown, each with the console calls made.
  \<^verbatim>\<open>mapboxIds.length\<close> throws when \<^verbatim>\<open>mapboxIds\<close> is \<^verbatim>\<open>undefined\<close>.
\<close>

definition findAccessToken ::
  "constants \<Rightarrow> 'n gd \<Rightarrow> subplot_id list option \<Rightarrow> (error \<times> event list) + (string \<times> event list)" where
  "findAccessToken c g mapboxIds =
    (if context_mapboxAccessToken g = Some [] then Inr ([], [])
     else case mapboxIds of
       None \<Rightarrow> Inl (TypeError, [])
     | Some ks \<Rightarrow>
        (case scan_tokens c (fullLayout g) ks
                \<lparr>tokensUseful = [], tokensListed = [], wontWork = False, logged = []\<rparr> of
           Inl e \<Rightarrow> Inl e
         | Inr s \<Rightarrow>
            if wontWork s then Inl (Error (noAccessTokenErrorMsg c), logged s)
            else (case tokensUseful s of
                first # _ \<Rightarrow>
                  Inr (first,
                       logged s @ (if length (tokensUseful s) > 1
                                   then [Lib_warn (multipleTokensErrorMsg c)] else []))
              | [] \<Rightarrow>
                  Inr ([],
                       logged s @ (if tokensListed s \<noteq> []
                                   then [Lib_log (unusedTokensMsg (tokensListed s))] else [])))))"

subsection \<open>\<^verbatim>\<open>plot\<close>\<close>

text \<open>
  Modelled from the spec: \<^verbatim>\<open>getSubplotCalcData\<close> of \<^verbatim>\<open>plots/get_data\<close> is missing from
  the sources; it extracts "that subplot's slice of calculated trace data (a filter
  matching the subplot's group against each trace's subplot assignment)".
\<close>

definition getSubplotCalcData :: "calcTrace list \<Rightarrow> subplot_id \<Rightarrow> calcTrace list" where
  "getSubplotCalcData calcData k = filter (\<lambda>t. trace_subplot t = k) calcData"

text \<open>
  \<^verbatim>\<open>new Mapbox(gd, id)\<close>: a fresh object at the next address, with no \<^verbatim>\<open>viewInitial\<close>.
\<close>

definition newMapbox :: "subplot_id \<Rightarrow> 'n world \<Rightarrow> addr \<times> 'n world" where
  "newMapbox k w =
     (length (wrappers w),
      w\<lparr>wrappers := wrappers w @ [\<lparr>wrapper_id = k, viewInitial = None\<rparr>],
        events := events w @ [Mapbox_new (length (wrappers w)) k]\<rparr>)"

text \<open>
  \<^verbatim>\<open>var mapbox = opts._subplot; if(!mapbox) { mapbox = new Mapbox(gd, id);
  fullLayout[id]._subplot = mapbox; }\<close>
\<close>

definition ensureSubplot ::
  "subplot_id \<Rightarrow> 'n opts \<Rightarrow> 'n gd \<Rightarrow> 'n world \<Rightarrow> addr \<times> 'n gd \<times> 'n world" where
  "ensureSubplot k opts g w =
     (case subplot opts of
        Some mapbox \<Rightarrow> (mapbox, g, w)
      | None \<Rightarrow>
         (let (mapbox, w') = newMapbox k w;
              fl = fullLayout g
          in (mapbox,
              g\<lparr>fullLayout := fl\<lparr>entries := (entries fl)(k \<mapsto> opts\<lparr>subplot := Some mapbox\<rparr>)\<rparr>\<rparr>,
              w')))"

text \<open>
  \<^verbatim>\<open>if(!mapbox.viewInitial) { mapbox.viewInitial = {center: Lib.extendFlat({}, opts.center),
  zoom: opts.zoom, bearing: opts.bearing, pitch: opts.pitch}; }\<close>
  The copy of \<^verbatim>\<open>center\<close> is the value of the pair.
\<close>

definition ensureViewInitial :: "('n, 'z) opts_scheme \<Rightarrow> 'n wrapper \<Rightarrow> 'n wrapper" where
  "ensureViewInitial opts mapbox =
     (if viewInitial mapbox = None
      then mapbox\<lparr>viewInitial :=
             Some \<lparr>center = center opts, zoom = zoom opts,
                   bearing = bearing opts, pitch = pitch opts\<rparr>\<rparr>
      else mapbox)"

text \<open>
  The body of the loop of \<^verbatim>\<open>plot\<close> for one id. \<^verbatim>\<open>opts._subplot\<close> throws when the id
  has no container.
\<close>

definition plot_subplot :: "subplot_id \<Rightarrow> 'n gd \<Rightarrow> 'n world \<Rightarrow> 'n result" where
  "plot_subplot k g w =
     (let subplotCalcData = getSubplotCalcData (calcdata g) k in
      case entries (fullLayout g) k of
        None \<Rightarrow> Inl (TypeError, g, w)
      | Some opts \<Rightarrow>
         (let (mapbox, g1, w1) = ensureSubplot k opts g w in
          if mapbox < length (wrappers w1)
          then
            (let w2 = w1\<lparr>wrappers :=
                        (wrappers w1)[mapbox := ensureViewInitial opts (wrappers w1 ! mapbox)]\<rparr>
             in Inr (g1, w2\<lparr>events := events w2 @ [Mapbox_plot mapbox subplotCalcData]\<rparr>))
          else Inl (DanglingWrapper, g1, w1)))"

fun plot_loop :: "subplot_id list \<Rightarrow> 'n gd \<Rightarrow> 'n world \<Rightarrow> 'n result" where
  "plot_loop [] g w = Inr (g, w)"
| "plot_loop (k # ks) g w =
     (case plot_subplot k g w of
        Inl e \<Rightarrow> Inl e
      | Inr (g', w') \<Rightarrow> plot_loop ks g' w')"

text \<open>
  \<^verbatim>\<open>exports.plot\<close>. The console calls of \<^verbatim>\<open>findAccessToken\<close> are appended to the
  events whether it returns or throws; \<^verbatim>\<open>mapboxIds.length\<close> in the loop header throws
  when \<^verbatim>\<open>mapboxIds\<close> is \<^verbatim>\<open>undefined\<close>.
\<close>

definition plot :: "constants \<Rightarrow> 'n gd \<Rightarrow> 'n world \<Rightarrow> 'n result" where
  "plot c g w =
     (let mapboxIds = subplots_mapbox (fullLayout g) in
      if mapboxgl_version w \<noteq> requiredVersion c
      then Inl (Error (wrongVersionErrorMsg c), g, w)
      else
        (case findAccessToken c g mapboxIds of
           Inl (e, msgs) \<Rightarrow> Inl (e, g, w\<lparr>events := events w @ msgs\<rparr>)
         | Inr (accessToken, msgs) \<Rightarrow>
            (let w1 = w\<lparr>events := events w @ msgs, mapboxgl_accessToken := Some accessToken\<rparr>
             in case mapboxIds of
                  None \<Rightarrow> Inl (TypeError, g, w1)
                | Some ks \<Rightarrow> plot_loop ks g w1)))"

subsection \<open>\<^verbatim>\<open>clean\<close>\<close>

text \<open>
  The loop over \<^verbatim>\<open>oldMapboxKeys\<close>. \<^verbatim>\<open>&&\<close> evaluates its right operand only when the
  key is missing from the new layout; \<^verbatim>\<open>oldFullLayout[oldMapboxKey]._subplot\<close> throws
  when the old layout has no container for the key. Only the wrapper's \<^verbatim>\<open>destroy\<close> is
  called: neither layout is written.
\<close>

fun clean_loop ::
  "'n layout \<Rightarrow> 'n layout \<Rightarrow> subplot_id list \<Rightarrow> 'n world \<Rightarrow> (error \<times> 'n world) + 'n world" where
  "clean_loop newFullLayout oldFullLayout [] w = Inr w"
| "clean_loop newFullLayout oldFullLayout (oldMapboxKey # ks) w =
     (if entries newFullLayout oldMapboxKey = None
      then
        (case entries oldFullLayout oldMapboxKey of
           None \<Rightarrow> Inl (TypeError, w)
         | Some opts \<Rightarrow>
            (case subplot opts of
               Some mapbox \<Rightarrow>
                 clean_loop newFullLayout oldFullLayout ks
                   (w\<lparr>events := events w @ [Mapbox_destroy mapbox]\<rparr>)
             | None \<Rightarrow> clean_loop newFullLayout oldFullLayout ks w))
      else clean_loop newFullLayout oldFullLayout ks w)"

text \<open>
  \<^verbatim>\<open>exports.clean(newFullData, newFullLayout, oldFullData, oldFullLayout)\<close>; the two
  data arrays are not used. \<^verbatim>\<open>oldFullLayout._subplots[MAPBOX] || []\<close>.
\<close>

definition clean :: "'n layout \<Rightarrow> 'n layout \<Rightarrow> 'n world \<Rightarrow> (error \<times> 'n world) + 'n world" where
  "clean newFullLayout oldFullLayout w =
     clean_loop newFullLayout oldFullLayout
       (case subplots_mapbox oldFullLayout of None \<Rightarrow> [] | Some ks \<Rightarrow> ks) w"

subsection \<open>\<^verbatim>\<open>toSVG\<close>\<close>




subsection \<open>\<^verbatim>\<open>updateFx\<close>\<close>

text \<open>
  The loop reads the slot and calls the method on it, with no test in between:
  \<^verbatim>\<open>fullLayout[id]._subplot\<close> throws when the id has no container, and
  \<^verbatim>\<open>subplotObj.updateFx\<close> throws when the slot is empty.
\<close>

fun updateFx_loop ::
  "'n layout \<Rightarrow> subplot_id list \<Rightarrow> 'n world \<Rightarrow> (error \<times> 'n world) + 'n world" where
  "updateFx_loop fl [] w = Inr w"
| "updateFx_loop fl (k # ks) w =
     (case entries fl k of
        None \<Rightarrow> Inl (TypeError, w)
      | Some opts \<Rightarrow>
         (case subplot opts of
            None \<Rightarrow> Inl (TypeError, w)
          | Some subplotObj \<Rightarrow>
              updateFx_loop fl ks (w\<lparr>events := events w @ [Mapbox_updateFx subplotObj]\<rparr>)))"

definition updateFx :: "'n gd \<Rightarrow> 'n world \<Rightarrow> (error \<times> 'n world) + 'n world" where
  "updateFx g w =
     (case subplots_mapbox (fullLayout g) of
        None \<Rightarrow> Inl (TypeError, w)
      | Some subplotIds \<Rightarrow> updateFx_loop (fullLayout g) subplotIds w)"

subsection \<open>Notions of the specification\<close>

text \<open>
  A subplot that "uses a Mapbox map style, but did not set an access token": its
  container has a recognized hosted style and a missing or empty token.
\<close>

definition offending :: "constants \<Rightarrow> 'n layout \<Rightarrow> subplot_id \<Rightarrow> bool" where
  "offending c fl k =
     (case entries fl k of
        None \<Rightarrow> False
      | Some opts \<Rightarrow> isMapboxStyle c (style opts) \<and> \<not> truthy (accesstoken opts))"

text \<open>A subplot whose style is a recognized hosted Mapbox style.\<close>

definition requiresToken :: "constants \<Rightarrow> 'n layout \<Rightarrow> subplot_id \<Rightarrow> bool" where
  "requiresToken c fl k =
     (case entries fl k of
        None \<Rightarrow> False
      | Some opts \<Rightarrow> isMapboxStyle c (style opts))"

text \<open>
  The "useful" tokens of a layout, in subplot-iteration order and with repetitions: the
  tokens supplied by subplots with a recognized hosted style.
\<close>

definition usefulTokens :: "constants \<Rightarrow> 'n layout \<Rightarrow> subplot_id list \<Rightarrow> string list" where
  "usefulTokens c fl ks =
     List.map_filter
       (\<lambda>k. case entries fl k of
              None \<Rightarrow> None
            | Some opts \<Rightarrow>
                if isMapboxStyle c (style opts) \<and> truthy (accesstoken opts)
                then accesstoken opts else None) ks"

text \<open>The "listed" tokens: every token a subplot carries, whatever its style.\<close>

definition listedTokens :: "'n layout \<Rightarrow> subplot_id list \<Rightarrow> string list" where
  "listedTokens fl ks =
     List.map_filter
       (\<lambda>k. case entries fl k of
              None \<Rightarrow> None
            | Some opts \<Rightarrow> if truthy (accesstoken opts) then accesstoken opts else None) ks"

text \<open>The elements of a list, each once, in the order of their first occurrence.\<close>

definition firstOccurrences :: "'a list \<Rightarrow> 'a list" where
  "firstOccurrences xs = rev (remdups (rev xs))"

text \<open>\<^verbatim>\<open>Lib.pushUnique\<close> applied to every item of a list in turn.\<close>

definition pushAll :: "'a list \<Rightarrow> 'a list \<Rightarrow> 'a list" where
  "pushAll array items = fold (\<lambda>item a. pushUnique a item) items array"

text \<open>
  The subplot ids a layout lists, none when the array is \<^verbatim>\<open>undefined\<close>:
  \<^verbatim>\<open>fullLayout._subplots[MAPBOX] || []\<close>, as \<^verbatim>\<open>clean\<close> reads it.
\<close>

definition mapboxKeys :: "'n layout \<Rightarrow> subplot_id list" where
  "mapboxKeys fl = (case subplots_mapbox fl of None \<Rightarrow> [] | Some ks \<Rightarrow> ks)"

text \<open>
  The wrappers of the previously-present ids that are absent from the new layout and
  have a wrapper, in iteration order.
\<close>

definition destroyed :: "'n layout \<Rightarrow> 'n layout \<Rightarrow> subplot_id list \<Rightarrow> addr list" where
  "destroyed newFullLayout oldFullLayout ks =
     List.map_filter
       (\<lambda>k. if entries newFullLayout k = None
            then (case entries oldFullLayout k of None \<Rightarrow> None | Some opts \<Rightarrow> subplot opts)
            else None) ks"

text \<open>A subplot id with a live wrapper: its container exists and its slot is set.\<close>

definition hasWrapper :: "'n layout \<Rightarrow> subplot_id \<Rightarrow> bool" where
  "hasWrapper fl k = (case entries fl k of None \<Rightarrow> False | Some opts \<Rightarrow> subplot opts \<noteq> None)"

text \<open>The wrappers in the slots of the given ids, in iteration order.\<close>

definition subplotObjs :: "'n layout \<Rightarrow> subplot_id list \<Rightarrow> addr list" where
  "subplotObjs fl ks =
     List.map_filter (\<lambda>k. case entries fl k of None \<Rightarrow> None | Some opts \<Rightarrow> subplot opts) ks"

text \<open>
  A subplot id that has been plotted: its container exists, its slot holds a wrapper
  of the store, and that wrapper has its \<^verbatim>\<open>viewInitial\<close>.
\<close>

definition plotted :: "'n gd \<Rightarrow> 'n world \<Rightarrow> subplot_id \<Rightarrow> bool" where
  "plotted g w k =
     (case entries (fullLayout g) k of
        None \<Rightarrow> False
      | Some opts \<Rightarrow>
         (case subplot opts of
            None \<Rightarrow> False
          | Some mapbox \<Rightarrow>
              mapbox < length (wrappers w) \<and> viewInitial (wrappers w ! mapbox) \<noteq> None))"

text \<open>
  The \<^verbatim>\<open>mapbox.plot\<close> calls on the wrappers in the slots of the given ids, each with
  the id's slice of the calculated data, in iteration order.
\<close>

definition plotCalls :: "'n gd \<Rightarrow> subplot_id list \<Rightarrow> event list" where
  "plotCalls g ks =
     List.map_filter
       (\<lambda>k. case entries (fullLayout g) k of
              None \<Rightarrow> None
            | Some opts \<Rightarrow>
                map_option (\<lambda>mapbox. Mapbox_plot mapbox (getSubplotCalcData (calcdata g) k))
                  (subplot opts)) ks"



text \<open>The graph div and the world a call leaves behind, whether it returned or threw.\<close>

definition finalGd :: "'n result \<Rightarrow> 'n gd" where
  "finalGd r = (case r of Inl (e, g, w) \<Rightarrow> g | Inr (g, w) \<Rightarrow> g)"

definition finalWorld :: "'n result \<Rightarrow> 'n world" where
  "finalWorld r = (case r of Inl (e, g, w) \<Rightarrow> w | Inr (g, w) \<Rightarrow> w)"


text \<open>
  The wrapper calls of an export: for each id in turn, \<^verbatim>\<open>toImage\<close> then \<^verbatim>\<open>destroy\<close>
  on the wrapper in its slot.
\<close>

definition snapshotCalls :: "'n layout \<Rightarrow> subplot_id list \<Rightarrow> event list" where
  "snapshotCalls fl ks =
     concat (map (\<lambda>mapbox. [Mapbox_toImage mapbox, Mapbox_destroy mapbox]) (subplotObjs fl ks))"

text \<open>
  The image elements an export appends, one per id with a wrapper, in iteration order.
\<close>

definition snapshotImages ::
  "string \<Rightarrow> 'n gsize \<Rightarrow> ('n::{one,plus,minus,times}) layout \<Rightarrow> subplot_id list \<Rightarrow> 'n image list" where
  "snapshotImages svgns sz fl ks =
     List.map_filter
       (\<lambda>k. case entries fl k of
              None \<Rightarrow> None
            | Some opts \<Rightarrow>
                map_option
                  (\<lambda>mapbox.
                     \<lparr>img_xmlns = svgns,
                      img_href = mapbox,
                      img_x = size_l sz + size_w sz * fst (domain_x opts),
                      img_y = size_t sz + size_h sz * (1 - snd (domain_y opts)),
                      img_width = size_w sz * (snd (domain_x opts) - fst (domain_x opts)),
                      img_height = size_h sz * (snd (domain_y opts) - fst (domain_y opts)),
                      img_preserveAspectRatio = ''none''\<rparr>)
                  (subplot opts)) ks"

subsection \<open>Concrete inputs\<close>

text \<open>
  Values for the constants, used where a statement is evaluated on a concrete input:
  the hosted style names of the plotly.js documentation and short messages.
\<close>

definition exampleConstants :: constants where
  "exampleConstants =
     \<lparr>requiredVersion = ''1.1.1'',
      wrongVersionErrorMsg = ''wrong mapbox-gl version'',
      noAccessTokenErrorMsg = ''missing access token'',
      multipleTokensErrorMsg = ''multiple access tokens'',
      styleValuesMapbox = [''basic'', ''streets'', ''outdoors'', ''light'', ''dark'',
                           ''satellite'', ''satellite-streets'']\<rparr>"

text \<open>
  A subplot container with the given style, token and slot; its domain is
  \<open>x: [0.2, 0.8]\<close>, \<open>y: [0.1, 0.9]\<close>.
\<close>

definition exampleOpts :: "style_value \<Rightarrow> string option \<Rightarrow> addr option \<Rightarrow> real opts" where
  "exampleOpts st token slot =
     \<lparr>center = (0, 0), zoom = 1, bearing = 0, pitch = 0,
      style = st, accesstoken = token,
      domain_x = (2 / 10, 8 / 10), domain_y = (1 / 10, 9 / 10),
      subplot = slot\<rparr>"

text \<open>
  A graph div with the given containers (in the order of \<^verbatim>\<open>_subplots.mapbox\<close>), an
  800 by 600 plot area with zero margins, no traces, and the given context token.
\<close>

definition exampleGd :: "(subplot_id \<times> real opts) list \<Rightarrow> string option \<Rightarrow> real gd" where
  "exampleGd kvs contextToken =
     \<lparr>fullLayout =
        \<lparr>subplots_mapbox = Some (map fst kvs),
         entries = map_of kvs,
         gl_size = \<lparr>size_l = 0, size_t = 0, size_w = 800, size_h = 600\<rparr>,
         glimages = []\<rparr>,
      calcdata = [],
      context_mapboxAccessToken = contextToken\<rparr>"

text \<open>A world with the given wrapper objects, the given engine version and no events.\<close>

definition exampleWorld :: "real wrapper list \<Rightarrow> string \<Rightarrow> real world" where
  "exampleWorld ws v =
     \<lparr>wrappers = ws, mapboxgl_version = v, mapboxgl_accessToken = None, events = []\<rparr>"


section \<open>Lemmas\<close>

subsection \<open>The token sets built by the scan\<close>

lemma pushAll_Nil [simp]: "pushAll a [] = a"
  by (simp add: pushAll_def)

lemma pushAll_Cons [simp]: "pushAll a (x # xs) = pushAll (pushUnique a x) xs"
  by (simp add: pushAll_def)

lemma pushAll_snoc: "pushAll a (xs @ [x]) = pushUnique (pushAll a xs) x"
  by (simp add: pushAll_def)

lemma set_pushAll: "set (pushAll a xs) = set a \<union> set xs"
  by (induction xs arbitrary: a) (auto simp: pushUnique_def)

lemma distinct_pushAll: "distinct a \<Longrightarrow> distinct (pushAll a xs)"
  by (induction xs arbitrary: a) (auto simp: pushUnique_def)

lemma pushAll_firstOccurrences: "pushAll [] xs = firstOccurrences xs"
proof (induction xs rule: rev_induct)
  case Nil
  show ?case by (simp add: firstOccurrences_def)
next
  case (snoc x xs)
  have "set (pushAll [] xs) = set xs" by (simp add: set_pushAll)
  then show ?case
    using snoc.IH by (simp add: pushAll_snoc pushUnique_def firstOccurrences_def)
qed

lemma hd_firstOccurrences: "xs \<noteq> [] \<Longrightarrow> hd (firstOccurrences xs) = hd xs"
proof (cases xs)
  case Nil
  assume "xs \<noteq> []"
  with Nil show ?thesis by simp
next
  case (Cons x xs')
  have "firstOccurrences (x # xs') = pushAll [x] xs'"
    by (simp add: pushAll_firstOccurrences [symmetric] pushUnique_def)
  moreover have "\<exists>ys. pushAll a xs' = a @ ys" for a :: "'a list"
  proof (induction xs' arbitrary: a)
    case Nil
    show ?case by simp
  next
    case (Cons y ys)
    obtain zs where "pushAll (pushUnique a y) ys = pushUnique a y @ zs"
      using Cons.IH by blast
    then show ?case by (auto simp: pushUnique_def)
  qed
  then obtain ys where "pushAll [x] xs' = [x] @ ys" by blast
  ultimately show ?thesis using Cons by simp
qed

lemma length_firstOccurrences: "length (firstOccurrences xs) = card (set xs)"
proof -
  have "distinct (firstOccurrences xs)" by (simp add: firstOccurrences_def)
  then have "card (set (firstOccurrences xs)) = length (firstOccurrences xs)"
    by (rule distinct_card)
  then show ?thesis by (simp add: firstOccurrences_def)
qed

lemma firstOccurrences_Nil_iff: "firstOccurrences xs = [] \<longleftrightarrow> xs = []"
  by (simp add: firstOccurrences_def)

lemma scan_step_eq:
  "scan_step c opts s =
     \<lparr>tokensUseful = (if isMapboxStyle c (style opts) \<and> truthy (accesstoken opts)
                       then pushUnique (tokensUseful s) (the (accesstoken opts))
                       else tokensUseful s),
      tokensListed = (if truthy (accesstoken opts)
                       then pushUnique (tokensListed s) (the (accesstoken opts))
                       else tokensListed s),
      wontWork = (wontWork s \<or> (isMapboxStyle c (style opts) \<and> \<not> truthy (accesstoken opts))),
      logged = logged s @
        (if isMapboxStyle c (style opts) \<and> \<not> truthy (accesstoken opts)
         then [Lib_error ''Uses Mapbox map style, but did not set an access token.'']
         else [])\<rparr>"
  by (simp add: scan_step_def Let_def)

lemma scan_tokens_total:
  "\<forall>k\<in>set ks. entries fl k \<noteq> None \<Longrightarrow>
   scan_tokens c fl ks s =
     Inr \<lparr>tokensUseful = pushAll (tokensUseful s) (usefulTokens c fl ks),
          tokensListed = pushAll (tokensListed s) (listedTokens fl ks),
          wontWork = (wontWork s \<or> (\<exists>k\<in>set ks. offending c fl k)),
          logged = logged s @
            map (\<lambda>k. Lib_error ''Uses Mapbox map style, but did not set an access token.'')
              (filter (offending c fl) ks)\<rparr>"
proof (induction ks arbitrary: s)
  case Nil
  show ?case by (simp add: usefulTokens_def listedTokens_def)
next
  case (Cons k ks)
  obtain opts where o: "entries fl k = Some opts" using Cons.prems by auto
  have rest: "\<forall>k\<in>set ks. entries fl k \<noteq> None" using Cons.prems by simp
  show ?case
    using o
    by (cases "accesstoken opts")
      (auto simp: Cons.IH [OF rest] scan_step_eq usefulTokens_def listedTokens_def
        offending_def)
qed

lemma scan_tokens_initial:
  "\<forall>k\<in>set ks. entries fl k \<noteq> None \<Longrightarrow>
   scan_tokens c fl ks \<lparr>tokensUseful = [], tokensListed = [], wontWork = False, logged = []\<rparr> =
     Inr \<lparr>tokensUseful = firstOccurrences (usefulTokens c fl ks),
          tokensListed = firstOccurrences (listedTokens fl ks),
          wontWork = (\<exists>k\<in>set ks. offending c fl k),
          logged =
            map (\<lambda>k. Lib_error ''Uses Mapbox map style, but did not set an access token.'')
              (filter (offending c fl) ks)\<rparr>"
  by (simp add: scan_tokens_total pushAll_firstOccurrences)

lemma usefulTokens_Nil:
  "\<forall>k\<in>set ks. \<not> requiresToken c fl k \<Longrightarrow> usefulTokens c fl ks = []"
  by (induction ks) (auto simp: usefulTokens_def requiresToken_def split: option.splits)

lemma not_requiresToken_not_offending:
  "\<not> requiresToken c fl k \<Longrightarrow> \<not> offending c fl k"
  by (auto simp: requiresToken_def offending_def split: option.splits)

subsection \<open>The loops of \<^verbatim>\<open>clean\<close> and \<^verbatim>\<open>updateFx\<close>\<close>

lemma destroyed_Nil [simp]: "destroyed newFullLayout oldFullLayout [] = []"
  by (simp add: destroyed_def)

lemma destroyed_Cons:
  "destroyed newFullLayout oldFullLayout (k # ks) =
     (case entries newFullLayout k of
        Some opts' \<Rightarrow> []
      | None \<Rightarrow>
         (case entries oldFullLayout k of
            None \<Rightarrow> []
          | Some opts \<Rightarrow> (case subplot opts of None \<Rightarrow> [] | Some mapbox \<Rightarrow> [mapbox])))
     @ destroyed newFullLayout oldFullLayout ks"
  by (simp add: destroyed_def split: option.splits)

lemma clean_loop_total:
  "\<forall>k\<in>set ks. entries newFullLayout k = None \<longrightarrow> entries oldFullLayout k \<noteq> None \<Longrightarrow>
   clean_loop newFullLayout oldFullLayout ks w =
     Inr (w\<lparr>events := events w @ map Mapbox_destroy (destroyed newFullLayout oldFullLayout ks)\<rparr>)"
proof (induction ks arbitrary: w)
  case Nil
  show ?case by simp
next
  case (Cons k ks)
  have rest: "\<forall>k\<in>set ks. entries newFullLayout k = None \<longrightarrow> entries oldFullLayout k \<noteq> None"
    using Cons.prems by simp
  show ?case
  proof (cases "entries newFullLayout k")
    case (Some opts')
    then show ?thesis by (simp add: Cons.IH [OF rest] destroyed_Cons)
  next
    case None
    then obtain opts where o: "entries oldFullLayout k = Some opts"
      using Cons.prems by auto
    show ?thesis
      using None o by (cases "subplot opts") (simp_all add: Cons.IH [OF rest] destroyed_Cons)
  qed
qed

lemma destroyed_removeAll:
  "entries oldFullLayout k = Some opts \<Longrightarrow> subplot opts = None \<Longrightarrow>
   destroyed newFullLayout oldFullLayout (removeAll k ks) = destroyed newFullLayout oldFullLayout ks"
  by (induction ks) (auto simp: destroyed_Cons split: option.splits)

lemma destroyed_unplotted:
  "\<forall>k\<in>set ks. \<exists>opts. entries oldFullLayout k = Some opts \<and> subplot opts = None \<Longrightarrow>
   destroyed newFullLayout oldFullLayout ks = []"
  by (induction ks) (auto simp: destroyed_Cons split: option.splits)

lemma subplotObjs_Nil [simp]: "subplotObjs fl [] = []"
  by (simp add: subplotObjs_def)

lemma subplotObjs_Cons:
  "subplotObjs fl (k # ks) =
     (case entries fl k of
        None \<Rightarrow> []
      | Some opts \<Rightarrow> (case subplot opts of None \<Rightarrow> [] | Some mapbox \<Rightarrow> [mapbox]))
     @ subplotObjs fl ks"
  by (simp add: subplotObjs_def split: option.splits)

lemma updateFx_loop_eq:
  "updateFx_loop fl ks w =
     (if \<forall>k\<in>set ks. hasWrapper fl k
      then Inr (w\<lparr>events := events w @ map Mapbox_updateFx (subplotObjs fl ks)\<rparr>)
      else Inl (TypeError,
                w\<lparr>events := events w @
                   map Mapbox_updateFx (subplotObjs fl (takeWhile (hasWrapper fl) ks))\<rparr>))"
proof (induction ks arbitrary: w)
  case Nil
  show ?case by simp
next
  case (Cons k ks)
  show ?case
  proof (cases "entries fl k")
    case None
    then have "\<not> hasWrapper fl k" by (simp add: hasWrapper_def)
    then show ?thesis using None by simp
  next
    case (Some opts)
    show ?thesis
    proof (cases "subplot opts")
      case None
      then have "\<not> hasWrapper fl k" using Some by (simp add: hasWrapper_def)
      then show ?thesis using Some None by simp
    next
      case (Some mapbox)
      then have "hasWrapper fl k" using \<open>entries fl k = Some opts\<close> by (simp add: hasWrapper_def)
      then show ?thesis
        using \<open>entries fl k = Some opts\<close> Some by (simp add: Cons.IH subplotObjs_Cons)
    qed
  qed
qed

subsection \<open>The loop of \<^verbatim>\<open>plot\<close>\<close>

lemma plotCalls_Nil [simp]: "plotCalls g [] = []"
  by (simp add: plotCalls_def)


lemma plotted_events [simp]: "plotted g (w\<lparr>events := es\<rparr>) k = plotted g w k"
  by (simp add: plotted_def split: option.splits)

lemma plotted_accessToken [simp]: "plotted g (w\<lparr>mapboxgl_accessToken := t\<rparr>) k = plotted g w k"
  by (simp add: plotted_def split: option.splits)






lemma viewInitial_ensureViewInitial [simp]: "viewInitial (ensureViewInitial opts mapbox) \<noteq> None"
  by (simp add: ensureViewInitial_def)




lemma scan_step_subplot [simp]: "scan_step c (opts\<lparr>subplot := a\<rparr>) s = scan_step c opts s"
  by (simp add: scan_step_def)



subsection \<open>Constructor calls of \<^verbatim>\<open>plot\<close>\<close>

lemma finalWorld_simps [simp]:
  "finalWorld (Inl (e, g, w)) = w" "finalWorld (Inr (g, w)) = w"
  by (simp_all add: finalWorld_def)

lemma finalGd_simps [simp]:
  "finalGd (Inl (e, g, w)) = g" "finalGd (Inr (g, w)) = g"
  by (simp_all add: finalGd_def)










subsection \<open>The loop of \<^verbatim>\<open>toSVG\<close>\<close>

lemma snapshotImages_Nil [simp]: "snapshotImages svgns sz fl [] = []"
  by (simp add: snapshotImages_def)


lemma snapshotImages_glimages [simp]:
  "snapshotImages svgns sz (fl\<lparr>glimages := ims\<rparr>) ks = snapshotImages svgns sz fl ks"
  by (simp add: snapshotImages_def)

lemma subplotObjs_glimages [simp]: "subplotObjs (fl\<lparr>glimages := ims\<rparr>) ks = subplotObjs fl ks"
  by (simp add: subplotObjs_def)

lemma hasWrapper_glimages [simp]: "hasWrapper (fl\<lparr>glimages := ims\<rparr>) k = hasWrapper fl k"
  by (simp add: hasWrapper_def)

lemma snapshotCalls_glimages [simp]:
  "snapshotCalls (fl\<lparr>glimages := ims\<rparr>) ks = snapshotCalls fl ks"
  by (simp add: snapshotCalls_def)





subsection \<open>Unfolding the concrete inputs\<close>

lemmas example_defs = exampleConstants_def exampleOpts_def exampleGd_def exampleWorld_def

section \<open>Claims\<close>

text \<open>
  C1. For every graph whose installed engine version string differs from the required
  version constant, \<^verbatim>\<open>plot\<close> throws the version error at once: the graph div and the
  world come back as they went in, so no token resolution has run (no console call), no
  wrapper has been created or changed, and the global access token has not been set.
\<close>

theorem plot_version_mismatch:
  "mapboxgl_version w \<noteq> requiredVersion c \<Longrightarrow>
   plot c g w = Inl (Error (wrongVersionErrorMsg c), g, w)"
  by (simp add: plot_def)

theorem plot_version_mismatch_witness:
  "mapboxgl_version (exampleWorld [] ''0.45.0'') \<noteq> requiredVersion exampleConstants \<and>
   plot exampleConstants
     (exampleGd [(''mapbox'', exampleOpts (StyleString ''basic'') None None)] None)
     (exampleWorld [] ''0.45.0'') =
   Inl (Error ''wrong mapbox-gl version'',
        exampleGd [(''mapbox'', exampleOpts (StyleString ''basic'') None None)] None,
        exampleWorld [] ''0.45.0'')"
proof -
  have v: "mapboxgl_version (exampleWorld [] ''0.45.0'') \<noteq> requiredVersion exampleConstants"
    by (simp add: exampleWorld_def exampleConstants_def)
  show ?thesis
    using v plot_version_mismatch [OF v] by (simp add: exampleConstants_def)
qed

text \<open>
  C2. When the context does not override with the empty token and at least one subplot
  has a recognized hosted style but no token, \<^verbatim>\<open>findAccessToken\<close> throws the
  missing-token error after the whole scan: one \<^verbatim>\<open>Lib.error\<close> call per offending
  subplot of the whole id list has been made, and nothing else. \<^verbatim>\<open>plot\<close> on such a
  graph throws too (the version error if the version is wrong, the missing-token error
  otherwise), and the state at the throw differs from the initial one by those console
  calls only: the graph div, the wrapper store and the global access token are unchanged.
\<close>

theorem findAccessToken_missing_token:
  assumes "context_mapboxAccessToken g \<noteq> Some []"
    and "subplots_mapbox (fullLayout g) = Some ks"
    and "\<forall>k\<in>set ks. entries (fullLayout g) k \<noteq> None"
    and "\<exists>k\<in>set ks. offending c (fullLayout g) k"
  shows "findAccessToken c g (Some ks) =
           Inl (Error (noAccessTokenErrorMsg c),
                map (\<lambda>k. Lib_error ''Uses Mapbox map style, but did not set an access token.'')
                  (filter (offending c (fullLayout g)) ks))
         \<and> plot c g w =
           (if mapboxgl_version w \<noteq> requiredVersion c
            then Inl (Error (wrongVersionErrorMsg c), g, w)
            else Inl (Error (noAccessTokenErrorMsg c), g,
                      w\<lparr>events := events w @
                         map (\<lambda>k. Lib_error ''Uses Mapbox map style, but did not set an access token.'')
                           (filter (offending c (fullLayout g)) ks)\<rparr>))"
proof -
  have tok: "findAccessToken c g (Some ks) =
           Inl (Error (noAccessTokenErrorMsg c),
                map (\<lambda>k. Lib_error ''Uses Mapbox map style, but did not set an access token.'')
                  (filter (offending c (fullLayout g)) ks))"
    using assms(1,4) by (simp add: findAccessToken_def scan_tokens_initial [OF assms(3)])
  show ?thesis
    using tok by (simp add: plot_def assms(2))
qed

theorem findAccessToken_missing_token_witness:
  "findAccessToken exampleConstants
     (exampleGd [(''mapbox'', exampleOpts (StyleString ''basic'') None None),
                 (''mapbox2'', exampleOpts (StyleString ''dark'') (Some ''pk.a'') None),
                 (''mapbox3'', exampleOpts (StyleString ''streets'') (Some []) None)] None)
     (Some [''mapbox'', ''mapbox2'', ''mapbox3'']) =
   Inl (Error ''missing access token'',
        [Lib_error ''Uses Mapbox map style, but did not set an access token.'',
         Lib_error ''Uses Mapbox map style, but did not set an access token.''])
   \<and> plot exampleConstants
     (exampleGd [(''mapbox'', exampleOpts (StyleString ''basic'') None None),
                 (''mapbox2'', exampleOpts (StyleString ''dark'') (Some ''pk.a'') None),
                 (''mapbox3'', exampleOpts (StyleString ''streets'') (Some []) None)] None)
     (exampleWorld [] ''1.1.1'') =
   Inl (Error ''missing access token'',
        exampleGd [(''mapbox'', exampleOpts (StyleString ''basic'') None None),
                 (''mapbox2'', exampleOpts (StyleString ''dark'') (Some ''pk.a'') None),
                 (''mapbox3'', exampleOpts (StyleString ''streets'') (Some []) None)] None,
        (exampleWorld [] ''1.1.1'')
          \<lparr>events := [Lib_error ''Uses Mapbox map style, but did not set an access token.'',
                      Lib_error ''Uses Mapbox map style, but did not set an access token.'']\<rparr>)"
  (is "findAccessToken _ ?g (Some ?ks) = _ \<and> _")
proof -
  have h1: "context_mapboxAccessToken ?g \<noteq> Some []" by (simp add: example_defs)
  have h2: "subplots_mapbox (fullLayout ?g) = Some ?ks" by (simp add: example_defs)
  have h3: "\<forall>k\<in>set ?ks. entries (fullLayout ?g) k \<noteq> None" by (simp add: example_defs)
  have h4: "\<exists>k\<in>set ?ks. offending exampleConstants (fullLayout ?g) k"
    by (simp add: example_defs offending_def)
  show ?thesis
    using findAccessToken_missing_token [OF h1 h2 h3 h4, of "exampleWorld [] ''1.1.1''"]
    by (simp add: example_defs offending_def)
qed

text \<open>
  C3. If the context's access token is the empty string, \<^verbatim>\<open>findAccessToken\<close> returns
  the empty string and has made no console call, whatever the id list and the layout
  are: no missing-token error even when a subplot uses a hosted style with no token.
\<close>

theorem findAccessToken_context_override:
  "context_mapboxAccessToken g = Some [] \<Longrightarrow> findAccessToken c g mapboxIds = Inr ([], [])"
  by (simp add: findAccessToken_def)

theorem findAccessToken_context_override_witness:
  "findAccessToken exampleConstants
     (exampleGd [(''mapbox'', exampleOpts (StyleString ''basic'') None None),
                 (''mapbox2'', exampleOpts StyleOther (Some ''pk.a'') None)] (Some []))
     (Some [''mapbox'', ''mapbox2'']) = Inr ([], [])"
  (is "findAccessToken _ ?g _ = _")
proof -
  have h: "context_mapboxAccessToken ?g = Some []" by (simp add: example_defs)
  show ?thesis using findAccessToken_context_override [OF h] by simp
qed

text \<open>
  C4, as first stated: for every layout whose list of useful tokens is not empty,
  \<^verbatim>\<open>findAccessToken\<close> returns the first useful token. Two inputs on which it does not:
  a layout in which one hosted-style subplot supplies the token \<open>pk.a\<close> and another
  hosted-style subplot supplies none (the call throws the missing-token error), and a
  single hosted-style subplot with the token \<open>pk.a\<close> under a context whose token is the
  empty string (the call returns the empty string).
\<close>

theorem findAccessToken_first_useful_counterexample:
  "usefulTokens exampleConstants
     (fullLayout (exampleGd [(''mapbox'', exampleOpts (StyleString ''basic'') (Some ''pk.a'') None),
                             (''mapbox2'', exampleOpts (StyleString ''dark'') None None)] None))
     [''mapbox'', ''mapbox2''] = [''pk.a'']
   \<and> findAccessToken exampleConstants
       (exampleGd [(''mapbox'', exampleOpts (StyleString ''basic'') (Some ''pk.a'') None),
                   (''mapbox2'', exampleOpts (StyleString ''dark'') None None)] None)
       (Some [''mapbox'', ''mapbox2'']) =
     Inl (Error ''missing access token'',
          [Lib_error ''Uses Mapbox map style, but did not set an access token.''])
   \<and> usefulTokens exampleConstants
     (fullLayout (exampleGd [(''mapbox'', exampleOpts (StyleString ''basic'') (Some ''pk.a'') None)]
        (Some [])))
     [''mapbox''] = [''pk.a'']
   \<and> findAccessToken exampleConstants
       (exampleGd [(''mapbox'', exampleOpts (StyleString ''basic'') (Some ''pk.a'') None)] (Some []))
       (Some [''mapbox'']) = Inr ([], [])"
  by (simp add: example_defs usefulTokens_def findAccessToken_def scan_step_def pushUnique_def)

text \<open>
  C4, amended. When the context token is not the empty string, no hosted-style subplot
  lacks a token, and the list of useful tokens is not empty, \<^verbatim>\<open>findAccessToken\<close>
  returns the first useful token in subplot-iteration order, whatever duplicates follow;
  its only console call is one \<^verbatim>\<open>Lib.warn\<close> when there are two or more distinct useful
  tokens, and it makes none when there is exactly one.
\<close>

theorem findAccessToken_first_useful:
  assumes "context_mapboxAccessToken g \<noteq> Some []"
    and "\<forall>k\<in>set ks. entries (fullLayout g) k \<noteq> None"
    and "\<forall>k\<in>set ks. \<not> offending c (fullLayout g) k"
    and "usefulTokens c (fullLayout g) ks \<noteq> []"
  shows "findAccessToken c g (Some ks) =
           Inr (hd (usefulTokens c (fullLayout g) ks),
                if 1 < card (set (usefulTokens c (fullLayout g) ks))
                then [Lib_warn (multipleTokensErrorMsg c)] else [])"
proof -
  let ?u = "usefulTokens c (fullLayout g) ks"
  obtain t ts where fo: "firstOccurrences ?u = t # ts"
    using assms(4) firstOccurrences_Nil_iff [of ?u] by (cases "firstOccurrences ?u") auto
  have t: "t = hd ?u"
    using hd_firstOccurrences [OF assms(4)] fo by simp
  have n: "Suc (length ts) = card (set ?u)"
    using length_firstOccurrences [of ?u] fo by simp
  have "findAccessToken c g (Some ks) =
          Inr (t, if 1 < Suc (length ts) then [Lib_warn (multipleTokensErrorMsg c)] else [])"
    using assms(1,3) fo
    by (simp add: findAccessToken_def scan_tokens_initial [OF assms(2)])
  then show ?thesis
    by (simp only: t n)
qed

theorem findAccessToken_first_useful_witness:
  "findAccessToken exampleConstants
     (exampleGd [(''mapbox'', exampleOpts (StyleString ''open-street-map'') (Some ''pk.z'') None),
                 (''mapbox2'', exampleOpts (StyleString ''dark'') (Some ''pk.b'') None),
                 (''mapbox3'', exampleOpts (StyleString ''basic'') (Some ''pk.a'') None),
                 (''mapbox4'', exampleOpts (StyleString ''light'') (Some ''pk.b'') None)] None)
     (Some [''mapbox'', ''mapbox2'', ''mapbox3'', ''mapbox4'']) =
   Inr (''pk.b'', [Lib_warn ''multiple access tokens''])
   \<and> findAccessToken exampleConstants
     (exampleGd [(''mapbox'', exampleOpts (StyleString ''dark'') (Some ''pk.b'') None),
                 (''mapbox2'', exampleOpts (StyleString ''light'') (Some ''pk.b'') None)] None)
     (Some [''mapbox'', ''mapbox2'']) =
   Inr (''pk.b'', [])"
  (is "findAccessToken _ ?g (Some ?ks) = _ \<and> findAccessToken _ ?g2 (Some ?ks2) = _")
proof -
  have h1: "context_mapboxAccessToken ?g \<noteq> Some []" by (simp add: example_defs)
  have h2: "\<forall>k\<in>set ?ks. entries (fullLayout ?g) k \<noteq> None" by (simp add: example_defs)
  have h3: "\<forall>k\<in>set ?ks. \<not> offending exampleConstants (fullLayout ?g) k"
    by (simp add: example_defs offending_def)
  have u: "usefulTokens exampleConstants (fullLayout ?g) ?ks = [''pk.b'', ''pk.a'', ''pk.b'']"
    by (simp add: example_defs usefulTokens_def)
  have h4: "usefulTokens exampleConstants (fullLayout ?g) ?ks \<noteq> []"
    by (simp add: u)
  have c: "card (set [''pk.b'', ''pk.a'', ''pk.b'']) = 2"
    by (simp add: insert_commute)
  have k1: "context_mapboxAccessToken ?g2 \<noteq> Some []" by (simp add: example_defs)
  have k2: "\<forall>k\<in>set ?ks2. entries (fullLayout ?g2) k \<noteq> None" by (simp add: example_defs)
  have k3: "\<forall>k\<in>set ?ks2. \<not> offending exampleConstants (fullLayout ?g2) k"
    by (simp add: example_defs offending_def)
  have u2: "usefulTokens exampleConstants (fullLayout ?g2) ?ks2 = [''pk.b'', ''pk.b'']"
    by (simp add: example_defs usefulTokens_def)
  have k4: "usefulTokens exampleConstants (fullLayout ?g2) ?ks2 \<noteq> []"
    by (simp add: u2)
  show ?thesis
    using findAccessToken_first_useful [OF h1 h2 h3 h4]
      findAccessToken_first_useful [OF k1 k2 k3 k4]
    unfolding u u2 c
    by (simp add: exampleConstants_def)
qed

text \<open>
  C5, as first stated: for every layout in which no subplot has a recognized hosted
  style, one informational log is emitted if a token is listed. An input on which none
  is: a subplot with the style \<open>open-street-map\<close> and the token \<open>pk.a\<close>, under a context
  whose token is the empty string.
\<close>

theorem findAccessToken_no_hosted_style_counterexample:
  "\<not> requiresToken exampleConstants
       (fullLayout (exampleGd
          [(''mapbox'', exampleOpts (StyleString ''open-street-map'') (Some ''pk.a'') None)]
          (Some [])))
       ''mapbox''
   \<and> listedTokens
       (fullLayout (exampleGd
          [(''mapbox'', exampleOpts (StyleString ''open-street-map'') (Some ''pk.a'') None)]
          (Some [])))
       [''mapbox''] = [''pk.a'']
   \<and> findAccessToken exampleConstants
       (exampleGd [(''mapbox'', exampleOpts (StyleString ''open-street-map'') (Some ''pk.a'') None)]
          (Some []))
       (Some [''mapbox'']) = Inr ([], [])"
  by (simp add: example_defs requiresToken_def listedTokens_def findAccessToken_def)

text \<open>
  C5, amended. When the context token is not the empty string and no subplot's style is
  a recognized hosted style, \<^verbatim>\<open>findAccessToken\<close> returns the empty string however many
  tokens are listed; if at least one token is listed its only console call is one
  \<^verbatim>\<open>Lib.log\<close> whose message names the listed tokens, each once, in the order of their
  first listing, joined by commas; if none is listed it makes no console call.
\<close>

theorem findAccessToken_no_hosted_style:
  assumes "context_mapboxAccessToken g \<noteq> Some []"
    and "\<forall>k\<in>set ks. entries (fullLayout g) k \<noteq> None"
    and "\<forall>k\<in>set ks. \<not> requiresToken c (fullLayout g) k"
  shows "findAccessToken c g (Some ks) =
           Inr ([],
                if listedTokens (fullLayout g) ks = [] then []
                else [Lib_log (unusedTokensMsg (firstOccurrences (listedTokens (fullLayout g) ks)))])"
proof -
  have u: "usefulTokens c (fullLayout g) ks = []"
    using assms(3) by (rule usefulTokens_Nil)
  have o: "\<not> (\<exists>k\<in>set ks. offending c (fullLayout g) k)"
    using assms(3) not_requiresToken_not_offending by blast
  show ?thesis
    using assms(1) o
    by (simp add: findAccessToken_def scan_tokens_initial [OF assms(2)] u
        firstOccurrences_Nil_iff) (simp add: firstOccurrences_def)
qed

theorem findAccessToken_no_hosted_style_witness:
  "findAccessToken exampleConstants
     (exampleGd [(''mapbox'', exampleOpts (StyleString ''open-street-map'') (Some ''pk.a'') None),
                 (''mapbox2'', exampleOpts StyleOther (Some ''pk.b'') None),
                 (''mapbox3'', exampleOpts (StyleString ''white-bg'') (Some ''pk.a'') None),
                 (''mapbox4'', exampleOpts (StyleString ''white-bg'') None None)] None)
     (Some [''mapbox'', ''mapbox2'', ''mapbox3'', ''mapbox4'']) =
   Inr ([], [Lib_log
     ''Listed mapbox access token(s) pk.a,pk.b but did not use a Mapbox map style, ignoring token(s).''])
   \<and> findAccessToken exampleConstants
     (exampleGd [(''mapbox'', exampleOpts (StyleString ''open-street-map'') None None)] None)
     (Some [''mapbox'']) = Inr ([], [])"
  (is "findAccessToken _ ?g (Some ?ks) = _ \<and> findAccessToken _ ?g2 (Some ?ks2) = _")
proof -
  have h1: "context_mapboxAccessToken ?g \<noteq> Some []" by (simp add: example_defs)
  have h2: "\<forall>k\<in>set ?ks. entries (fullLayout ?g) k \<noteq> None" by (simp add: example_defs)
  have h3: "\<forall>k\<in>set ?ks. \<not> requiresToken exampleConstants (fullLayout ?g) k"
    by (simp add: example_defs requiresToken_def)
  have l: "listedTokens (fullLayout ?g) ?ks = [''pk.a'', ''pk.b'', ''pk.a'']"
    by (simp add: example_defs listedTokens_def)
  have k1: "context_mapboxAccessToken ?g2 \<noteq> Some []" by (simp add: example_defs)
  have k2: "\<forall>k\<in>set ?ks2. entries (fullLayout ?g2) k \<noteq> None" by (simp add: example_defs)
  have k3: "\<forall>k\<in>set ?ks2. \<not> requiresToken exampleConstants (fullLayout ?g2) k"
    by (simp add: example_defs requiresToken_def)
  have l2: "listedTokens (fullLayout ?g2) ?ks2 = []"
    by (simp add: example_defs listedTokens_def)
  show ?thesis
    using findAccessToken_no_hosted_style [OF h1 h2 h3]
      findAccessToken_no_hosted_style [OF k1 k2 k3]
    unfolding l l2
    by (simp add: firstOccurrences_def unusedTokensMsg_def)
qed



text \<open>
  C7. When every previously-present id that is missing from the new layout has a
  container in the old layout, \<^verbatim>\<open>clean\<close> returns, and all it has done is to call
  \<^verbatim>\<open>destroy\<close>, in iteration order, on the wrappers of exactly those previously-present
  ids that are absent from the new layout and have a wrapper: the wrapper store, the
  global token and both layouts are as before. For old ids \<open>A\<close>, \<open>B\<close> with wrappers
  \<open>0\<close> and \<open>1\<close> and a new layout with \<open>A\<close> only, the one call is \<^verbatim>\<open>destroy\<close> on
  wrapper \<open>1\<close>.
\<close>

theorem clean_destroys_removed:
  assumes "\<forall>k\<in>set (mapboxKeys oldFullLayout).
             entries newFullLayout k = None \<longrightarrow> entries oldFullLayout k \<noteq> None"
  shows "clean newFullLayout oldFullLayout w =
           Inr (w\<lparr>events := events w @
                  map Mapbox_destroy (destroyed newFullLayout oldFullLayout (mapboxKeys oldFullLayout))\<rparr>)"
  using clean_loop_total [OF assms [unfolded mapboxKeys_def]]
  by (simp add: clean_def mapboxKeys_def)

theorem clean_destroys_removed_witness:
  "clean
     (fullLayout (exampleGd [(''A'', exampleOpts (StyleString ''basic'') (Some ''pk.a'') (Some 0))] None))
     (fullLayout (exampleGd [(''A'', exampleOpts (StyleString ''basic'') (Some ''pk.a'') (Some 0)),
                             (''B'', exampleOpts (StyleString ''dark'') (Some ''pk.a'') (Some 1))] None))
     (exampleWorld [\<lparr>wrapper_id = ''A'', viewInitial = None\<rparr>,
                    \<lparr>wrapper_id = ''B'', viewInitial = None\<rparr>] ''1.1.1'') =
   Inr ((exampleWorld [\<lparr>wrapper_id = ''A'', viewInitial = None\<rparr>,
                       \<lparr>wrapper_id = ''B'', viewInitial = None\<rparr>] ''1.1.1'')
          \<lparr>events := [Mapbox_destroy 1]\<rparr>)"
  (is "clean ?new ?old ?w = _")
proof -
  have h: "\<forall>k\<in>set (mapboxKeys ?old). entries ?new k = None \<longrightarrow> entries ?old k \<noteq> None"
    by (simp add: example_defs mapboxKeys_def)
  show ?thesis
    using clean_destroys_removed [OF h, of ?w]
    by (simp add: example_defs mapboxKeys_def destroyed_def)
qed




text \<open>
  C9, as first stated: a current subplot id without a wrapper is skipped and
  \<^verbatim>\<open>updateFx\<close> completes without error. On the ids \<open>mapbox\<close> (wrapper \<open>0\<close>),
  \<open>mapbox2\<close> (no wrapper), \<open>mapbox3\<close> (wrapper \<open>1\<close>) the call throws a \<open>TypeError\<close>
  at \<open>mapbox2\<close>, after the refresh of wrapper \<open>0\<close> and before that of wrapper \<open>1\<close>.
\<close>

theorem updateFx_counterexample:
  "updateFx
     (exampleGd [(''mapbox'', exampleOpts (StyleString ''basic'') (Some ''pk.a'') (Some 0)),
                 (''mapbox2'', exampleOpts (StyleString ''basic'') (Some ''pk.a'') None),
                 (''mapbox3'', exampleOpts (StyleString ''basic'') (Some ''pk.a'') (Some 1))] None)
     (exampleWorld [\<lparr>wrapper_id = ''mapbox'', viewInitial = None\<rparr>,
                    \<lparr>wrapper_id = ''mapbox3'', viewInitial = None\<rparr>] ''1.1.1'') =
   Inl (TypeError,
        (exampleWorld [\<lparr>wrapper_id = ''mapbox'', viewInitial = None\<rparr>,
                       \<lparr>wrapper_id = ''mapbox3'', viewInitial = None\<rparr>] ''1.1.1'')
          \<lparr>events := [Mapbox_updateFx 0]\<rparr>)"
  by (simp add: updateFx_def example_defs)

text \<open>
  C9, amended. \<^verbatim>\<open>updateFx\<close> creates no wrapper and calls the refresh only on wrappers
  that sit in the slots of current subplot ids. If every current id has a live wrapper,
  it refreshes each of them in iteration order and returns. Otherwise it throws a
  \<open>TypeError\<close> at the first id without a live wrapper, having refreshed the wrappers of
  the ids before it: such an id is not skipped.
\<close>

theorem updateFx_refreshes_or_throws:
  assumes "subplots_mapbox (fullLayout g) = Some ks"
  shows "updateFx g w =
     (if \<forall>k\<in>set ks. hasWrapper (fullLayout g) k
      then Inr (w\<lparr>events := events w @ map Mapbox_updateFx (subplotObjs (fullLayout g) ks)\<rparr>)
      else Inl (TypeError,
                w\<lparr>events := events w @
                   map Mapbox_updateFx
                     (subplotObjs (fullLayout g) (takeWhile (hasWrapper (fullLayout g)) ks))\<rparr>))"
  using assms by (simp add: updateFx_def updateFx_loop_eq)

theorem updateFx_refreshes_or_throws_witness:
  "updateFx
     (exampleGd [(''mapbox'', exampleOpts (StyleString ''basic'') (Some ''pk.a'') (Some 1)),
                 (''mapbox2'', exampleOpts (StyleString ''basic'') (Some ''pk.a'') (Some 0))] None)
     (exampleWorld [\<lparr>wrapper_id = ''mapbox2'', viewInitial = None\<rparr>,
                    \<lparr>wrapper_id = ''mapbox'', viewInitial = None\<rparr>] ''1.1.1'') =
   Inr ((exampleWorld [\<lparr>wrapper_id = ''mapbox2'', viewInitial = None\<rparr>,
                       \<lparr>wrapper_id = ''mapbox'', viewInitial = None\<rparr>] ''1.1.1'')
          \<lparr>events := [Mapbox_updateFx 1, Mapbox_updateFx 0]\<rparr>)
   \<and> updateFx
     (exampleGd [(''mapbox'', exampleOpts (StyleString ''basic'') (Some ''pk.a'') (Some 0)),
                 (''mapbox2'', exampleOpts (StyleString ''basic'') (Some ''pk.a'') None)] None)
     (exampleWorld [\<lparr>wrapper_id = ''mapbox'', viewInitial = None\<rparr>] ''1.1.1'') =
   Inl (TypeError,
        (exampleWorld [\<lparr>wrapper_id = ''mapbox'', viewInitial = None\<rparr>] ''1.1.1'')
          \<lparr>events := [Mapbox_updateFx 0]\<rparr>)"
  (is "updateFx ?g1 ?w1 = _ \<and> updateFx ?g2 ?w2 = _")
proof -
  have h1: "subplots_mapbox (fullLayout ?g1) = Some [''mapbox'', ''mapbox2'']"
    by (simp add: example_defs)
  have h2: "subplots_mapbox (fullLayout ?g2) = Some [''mapbox'', ''mapbox2'']"
    by (simp add: example_defs)
  show ?thesis
    using updateFx_refreshes_or_throws [OF h1, of ?w1] updateFx_refreshes_or_throws [OF h2, of ?w2]
    by (simp add: example_defs hasWrapper_def subplotObjs_def)
qed

text \<open>
  C10. For a previously-present id that is absent from the new layout and whose old
  container has an empty wrapper slot, \<^verbatim>\<open>clean\<close> returns without error and its
  \<^verbatim>\<open>destroy\<close> calls are those of the other ids: the result is what the old id list
  without that id gives. In particular, when no previously-present subplot was ever
  plotted (every old container has an empty slot), \<^verbatim>\<open>clean\<close> returns the world it was
  given. On old ids \<open>A\<close> (wrapper \<open>0\<close>) and \<open>B\<close> (no wrapper), both absent from the
  new layout, the one call is \<^verbatim>\<open>destroy\<close> on wrapper \<open>0\<close>.
\<close>

theorem clean_skips_unplotted:
  assumes "\<forall>j\<in>set (mapboxKeys oldFullLayout).
             entries newFullLayout j = None \<longrightarrow> entries oldFullLayout j \<noteq> None"
    and "entries newFullLayout k = None"
    and "entries oldFullLayout k = Some opts"
    and "subplot opts = None"
  shows "clean newFullLayout oldFullLayout w =
           Inr (w\<lparr>events := events w @
                  map Mapbox_destroy
                    (destroyed newFullLayout oldFullLayout (removeAll k (mapboxKeys oldFullLayout)))\<rparr>)
         \<and> ((\<forall>j\<in>set (mapboxKeys oldFullLayout).
               \<exists>opts'. entries oldFullLayout j = Some opts' \<and> subplot opts' = None)
            \<longrightarrow> clean newFullLayout oldFullLayout w = Inr w)"
proof -
  have "clean newFullLayout oldFullLayout w =
          Inr (w\<lparr>events := events w @
                 map Mapbox_destroy (destroyed newFullLayout oldFullLayout (mapboxKeys oldFullLayout))\<rparr>)"
    using clean_loop_total [OF assms(1) [unfolded mapboxKeys_def]]
    by (simp add: clean_def mapboxKeys_def)
  then show ?thesis
    using destroyed_removeAll [OF assms(3,4)] destroyed_unplotted by fastforce
qed

theorem clean_skips_unplotted_witness:
  "clean
     (fullLayout (exampleGd [(''A'', exampleOpts (StyleString ''basic'') (Some ''pk.a'') None)] None))
     (fullLayout (exampleGd [(''A'', exampleOpts (StyleString ''basic'') (Some ''pk.a'') None),
                             (''B'', exampleOpts (StyleString ''dark'') (Some ''pk.a'') None)] None))
     (exampleWorld [] ''1.1.1'') =
   Inr (exampleWorld [] ''1.1.1'')
   \<and> clean
     (fullLayout (exampleGd [] None))
     (fullLayout (exampleGd [(''A'', exampleOpts (StyleString ''basic'') (Some ''pk.a'') (Some 0)),
                             (''B'', exampleOpts (StyleString ''dark'') (Some ''pk.a'') None)] None))
     (exampleWorld [\<lparr>wrapper_id = ''A'', viewInitial = None\<rparr>] ''1.1.1'') =
   Inr ((exampleWorld [\<lparr>wrapper_id = ''A'', viewInitial = None\<rparr>] ''1.1.1'')
          \<lparr>events := [Mapbox_destroy 0]\<rparr>)"
  (is "clean ?new ?old ?w = _ \<and> clean ?new2 ?old2 ?w2 = _")
proof -
  have h1: "\<forall>j\<in>set (mapboxKeys ?old). entries ?new j = None \<longrightarrow> entries ?old j \<noteq> None"
    by (simp add: example_defs mapboxKeys_def)
  have h2: "entries ?new ''B'' = None" by (simp add: example_defs)
  have h3: "entries ?old ''B'' = Some (exampleOpts (StyleString ''dark'') (Some ''pk.a'') None)"
    by (simp add: example_defs)
  have h4: "subplot (exampleOpts (StyleString ''dark'') (Some ''pk.a'') None) = None"
    by (simp add: example_defs)
  have h5: "\<forall>j\<in>set (mapboxKeys ?old). \<exists>opts'. entries ?old j = Some opts' \<and> subplot opts' = None"
    by (simp add: example_defs mapboxKeys_def)
  have first: "clean ?new ?old ?w = Inr ?w"
    using clean_skips_unplotted [OF h1 h2 h3 h4, of ?w] h5 by blast
  have k1: "\<forall>j\<in>set (mapboxKeys ?old2). entries ?new2 j = None \<longrightarrow> entries ?old2 j \<noteq> None"
    by (simp add: example_defs mapboxKeys_def)
  have k2: "entries ?new2 ''B'' = None" by (simp add: example_defs)
  have k3: "entries ?old2 ''B'' = Some (exampleOpts (StyleString ''dark'') (Some ''pk.a'') None)"
    by (simp add: example_defs)
  have second: "clean ?new2 ?old2 ?w2 = Inr (?w2\<lparr>events := [Mapbox_destroy 0]\<rparr>)"
    using conjunct1 [OF clean_skips_unplotted [OF k1 k2 k3 h4, of ?w2]]
    by (simp add: example_defs mapboxKeys_def destroyed_def)
  show ?thesis
    using first second by simp
qed

end
